theory Spec2Isabelle
  imports Main
begin

section \<open>Python values, errors and builtins used by the employee manager\<close>

text \<open>
  The program is a single Python module, \<^verbatim>\<open>employee_manager.py\<close>. Its records are
  dictionaries with string keys, held in a list; a record read back from the JSON file
  can hold any JSON value under any key. Values are therefore modelled by one datatype.
  Floating-point numbers are not modelled.

  A Python \<^verbatim>\<open>str\<close> is modelled by the bytes of its UTF-8 encoding, as an Isabelle
  string. The character classes below (white space, digits, upper-case letters) are
  those of Python on the ASCII range, and a length counts bytes: on ASCII text the
  functions below are those of Python.

  An exception is a value of \<open>py_error\<close>; a function that can raise returns a
  sum, with \<open>Inl\<close> for the exception.
\<close>

datatype pyval =
    PNone
  | PBool bool
  | PInt int
  | PStr string
  | PList "pyval list"
  | PDict "(string \<times> pyval) list"

type_synonym pydict = "(string \<times> pyval) list"

datatype py_error =
    AttributeError
  | TypeError
  | IOError
  | JSONDecodeError
  | UnicodeDecodeError
  | UnicodeEncodeError

subsection \<open>Strings\<close>

text \<open>
  \<open>trim P s\<close>: the characters that satisfy \<open>P\<close> removed from both ends of \<open>s\<close>.
\<close>

definition trim :: "(char \<Rightarrow> bool) \<Rightarrow> string \<Rightarrow> string" where
  "trim P s = rev (dropWhile P (rev (dropWhile P s)))"

text \<open>
  White space for \<^verbatim>\<open>str.strip\<close>: tab, line feed, vertical tab, form feed, carriage
  return, the four separators 1C to 1F, and the space.
\<close>

definition py_isspace :: "char \<Rightarrow> bool" where
  "py_isspace c = (let n = (of_char c :: nat) in (9 \<le> n \<and> n \<le> 13) \<or> (28 \<le> n \<and> n \<le> 32))"

text \<open>\<^verbatim>\<open>s.strip()\<close>: leading and trailing white space removed.\<close>

definition strip :: "string \<Rightarrow> string" where
  "strip s = trim py_isspace s"

definition lower_char :: "char \<Rightarrow> char" where
  "lower_char c = (let n = (of_char c :: nat) in if 65 \<le> n \<and> n \<le> 90 then char_of (n + 32) else c)"

text \<open>\<^verbatim>\<open>s.lower()\<close>.\<close>

definition lower :: "string \<Rightarrow> string" where
  "lower s = map lower_char s"

subsection \<open>\<^verbatim>\<open>int(s)\<close> on a string\<close>

definition is_digit :: "char \<Rightarrow> bool" where
  "is_digit c = (let n = (of_char c :: nat) in 48 \<le> n \<and> n \<le> 57)"

definition digit_val :: "char \<Rightarrow> int" where
  "digit_val c = int (of_char c) - 48"

text \<open>
  The digits of a decimal literal: at least one digit, and single underscores allowed
  between digits only. The flag says whether the previous character was a digit.
\<close>

fun digits_ok :: "bool \<Rightarrow> string \<Rightarrow> bool" where
  "digits_ok prev [] = prev"
| "digits_ok prev (c # cs) =
     (if is_digit c then digits_ok True cs
      else if c = CHR ''_'' \<and> prev then digits_ok False cs
      else False)"

definition digits_value :: "string \<Rightarrow> int" where
  "digits_value cs = foldl (\<lambda>acc c. 10 * acc + digit_val c) 0 (filter is_digit cs)"

text \<open>
  White space for \<^verbatim>\<open>int\<close> on a string of ASCII characters: tab, line feed, vertical
  tab, form feed, carriage return and the space (the separators 1C to 1F are not).
\<close>

definition int_isspace :: "char \<Rightarrow> bool" where
  "int_isspace c = (let n = (of_char c :: nat) in (9 \<le> n \<and> n \<le> 13) \<or> n = 32)"

text \<open>
  \<^verbatim>\<open>int(s)\<close> for a string \<^verbatim>\<open>s\<close>, base 10: surrounding white space is ignored, one sign
  is allowed, then the digits. \<open>None\<close> stands for \<^verbatim>\<open>ValueError\<close>, the only exception
  the call raises on a string. The limit that recent versions of CPython put on the
  number of digits (4300 unless configured otherwise) is not modelled.
\<close>

definition py_int :: "string \<Rightarrow> int option" where
  "py_int s =
     (case trim int_isspace s of
        [] \<Rightarrow> None
      | c # r \<Rightarrow>
          (let neg = (c = CHR ''-'');
               body = (if c = CHR ''-'' \<or> c = CHR ''+'' then r else c # r)
           in if digits_ok False body
              then Some ((if neg then - 1 else 1) * digits_value body)
              else None))"

section \<open>Validation\<close>

text \<open>
  \<^verbatim>\<open>
  def validate_name(name: str) -> bool:
      name = name.strip()
      return len(name) >= 1
  \<close>
\<close>

definition validate_name :: "string \<Rightarrow> bool" where
  "validate_name name = (length (strip name) \<ge> 1)"

text \<open>
  \<^verbatim>\<open>
  def validate_age(age_str: str) -> Optional[int]:
      try:
          age = int(age_str)
          if 15 <= age <= 100:
              return age
      except ValueError:
          pass
      return None
  \<close>
\<close>

definition validate_age :: "string \<Rightarrow> int option" where
  "validate_age age_str =
     (case py_int age_str of
        None \<Rightarrow> None
      | Some age \<Rightarrow> if 15 \<le> age \<and> age \<le> 100 then Some age else None)"

section \<open>Comparison, \<^verbatim>\<open>max\<close> and addition on values\<close>

text \<open>\<^verbatim>\<open>a == b\<close>. A Boolean is an integer (\<^verbatim>\<open>True == 1\<close>); dictionaries compare by content.\<close>

fun py_eq :: "pyval \<Rightarrow> pyval \<Rightarrow> bool" where
  "py_eq PNone PNone = True"
| "py_eq (PBool a) (PBool b) = (a = b)"
| "py_eq (PBool a) (PInt j) = ((if a then 1 else 0) = j)"
| "py_eq (PInt i) (PBool b) = (i = (if b then 1 else 0))"
| "py_eq (PInt i) (PInt j) = (i = j)"
| "py_eq (PStr s) (PStr t) = (s = t)"
| "py_eq (PList xs) (PList ys) = list_all2 py_eq xs ys"
| "py_eq (PDict d) (PDict e) =
     (length d = length e \<and>
      list_all (\<lambda>(k, v). list_ex (\<lambda>(k', w). k' = k \<and> py_eq v w) e) d)"
| "py_eq _ _ = False"

text \<open>Strings are ordered lexicographically, character by character.\<close>

fun str_gt :: "string \<Rightarrow> string \<Rightarrow> bool" where
  "str_gt [] t = False"
| "str_gt (x # xs) [] = True"
| "str_gt (x # xs) (y # ys) =
     (if x = y then str_gt xs ys else (of_char x :: nat) > of_char y)"

text \<open>
  \<^verbatim>\<open>a > b\<close>. Numbers compare with numbers, strings with strings, lists with lists (at the
  first position where they differ); every other pair raises \<^verbatim>\<open>TypeError\<close>.
\<close>

fun py_gt :: "pyval \<Rightarrow> pyval \<Rightarrow> py_error + bool" where
  "py_gt (PInt i) (PInt j) = Inr (i > j)"
| "py_gt (PInt i) (PBool b) = Inr (i > (if b then 1 else 0))"
| "py_gt (PBool a) (PInt j) = Inr ((if a then 1 else 0) > j)"
| "py_gt (PBool a) (PBool b) = Inr (a \<and> \<not> b)"
| "py_gt (PStr s) (PStr t) = Inr (str_gt s t)"
| "py_gt (PList []) (PList ys) = Inr False"
| "py_gt (PList (x # xs)) (PList []) = Inr True"
| "py_gt (PList (x # xs)) (PList (y # ys)) =
     (if py_eq x y then py_gt (PList xs) (PList ys) else py_gt x y)"
| "py_gt _ _ = Inl TypeError"

text \<open>
  \<^verbatim>\<open>max(iterable, default=d)\<close>: the running maximum is replaced by an item that compares
  greater; the default is returned for an empty iterable.
\<close>

fun py_max_from :: "pyval \<Rightarrow> pyval list \<Rightarrow> py_error + pyval" where
  "py_max_from m [] = Inr m"
| "py_max_from m (x # xs) =
     (case py_gt x m of
        Inl err \<Rightarrow> Inl err
      | Inr b \<Rightarrow> py_max_from (if b then x else m) xs)"

definition py_max :: "pyval list \<Rightarrow> pyval \<Rightarrow> py_error + pyval" where
  "py_max xs d = (case xs of [] \<Rightarrow> Inr d | x # rest \<Rightarrow> py_max_from x rest)"

text \<open>\<^verbatim>\<open>1 + v\<close>: an integer for a number, \<^verbatim>\<open>TypeError\<close> for anything else.\<close>

fun py_add_one :: "pyval \<Rightarrow> py_error + int" where
  "py_add_one (PInt i) = Inr (1 + i)"
| "py_add_one (PBool b) = Inr (1 + (if b then 1 else 0))"
| "py_add_one _ = Inl TypeError"

text \<open>\<^verbatim>\<open>d.get(k, default)\<close>.\<close>

definition dict_get :: "pydict \<Rightarrow> string \<Rightarrow> pyval \<Rightarrow> pyval" where
  "dict_get d k dflt = (case map_of d k of None \<Rightarrow> dflt | Some v \<Rightarrow> v)"

section \<open>Formatting\<close>

definition digit_char :: "nat \<Rightarrow> char" where
  "digit_char d = char_of (48 + d)"

function nat_digits :: "nat \<Rightarrow> string" where
  "nat_digits n = (if n < 10 then [digit_char n] else nat_digits (n div 10) @ [digit_char (n mod 10)])"
  by pat_completeness auto
termination
  by (relation "measure id") auto

declare nat_digits.simps [simp del]

text \<open>\<^verbatim>\<open>str(i)\<close> for an integer.\<close>

definition py_str_int :: "int \<Rightarrow> string" where
  "py_str_int i = (if i < 0 then CHR ''-'' # nat_digits (nat (- i)) else nat_digits (nat i))"

text \<open>\<^verbatim>\<open>s.ljust(w)\<close>: padded on the right with spaces up to width \<open>w\<close>, never cut.\<close>

definition ljust :: "string \<Rightarrow> nat \<Rightarrow> string" where
  "ljust s w = s @ replicate (w - length s) CHR '' ''"

text \<open>
  \<^verbatim>\<open>format(v, "<w")\<close>, the replacement field \<^verbatim>\<open>{v:<w}\<close> of an f-string. A string and an
  integer are left-aligned; a Boolean is formatted as the integer it is; \<^verbatim>\<open>None\<close>, lists
  and dictionaries do not accept a format specification and raise \<^verbatim>\<open>TypeError\<close>.
\<close>

fun py_format_left :: "pyval \<Rightarrow> nat \<Rightarrow> py_error + string" where
  "py_format_left (PStr s) w = Inr (ljust s w)"
| "py_format_left (PInt i) w = Inr (ljust (py_str_int i) w)"
| "py_format_left (PBool b) w = Inr (ljust (if b then ''1'' else ''0'') w)"
| "py_format_left _ w = Inl TypeError"

section \<open>Files\<close>

text \<open>
  A path names nothing, a regular file with its bytes, or something that exists but
  that \<^verbatim>\<open>open\<close> refuses with \<^verbatim>\<open>OSError\<close> (a directory, a file without permission).
\<close>

datatype fnode = RegularFile string | Blocked

type_synonym filesys = "string \<Rightarrow> fnode option"

definition in_range :: "char \<Rightarrow> nat \<Rightarrow> nat \<Rightarrow> bool" where
  "in_range c lo hi = (lo \<le> (of_char c :: nat) \<and> (of_char c :: nat) \<le> hi)"

text \<open>
  The length of the well-formed UTF-8 sequence at the head of the bytes, 0 when there is
  none there (the strict decoder: no overlong forms, no surrogates, nothing above
  U+10FFFF).
\<close>

definition utf8_len :: "string \<Rightarrow> nat" where
  "utf8_len s =
     (case s of
        [] \<Rightarrow> 0
      | c # cs \<Rightarrow>
          (let n = (of_char c :: nat) in
           if n < 0x80 then 1
           else if 0xC2 \<le> n \<and> n \<le> 0xDF then
             (case cs of c1 # _ \<Rightarrow> if in_range c1 0x80 0xBF then 2 else 0 | _ \<Rightarrow> 0)
           else if 0xE0 \<le> n \<and> n \<le> 0xEF then
             (case cs of
                c1 # c2 # _ \<Rightarrow>
                  if in_range c1 (if n = 0xE0 then 0xA0 else 0x80) (if n = 0xED then 0x9F else 0xBF)
                     \<and> in_range c2 0x80 0xBF
                  then 3 else 0
              | _ \<Rightarrow> 0)
           else if 0xF0 \<le> n \<and> n \<le> 0xF4 then
             (case cs of
                c1 # c2 # c3 # _ \<Rightarrow>
                  if in_range c1 (if n = 0xF0 then 0x90 else 0x80) (if n = 0xF4 then 0x8F else 0xBF)
                     \<and> in_range c2 0x80 0xBF \<and> in_range c3 0x80 0xBF
                  then 4 else 0
              | _ \<Rightarrow> 0)
           else 0))"

function utf8_valid :: "string \<Rightarrow> bool" where
  "utf8_valid s =
     (if s = [] then True
      else if utf8_len s = 0 then False
      else utf8_valid (drop (utf8_len s) s))"
  by pat_completeness auto
termination
  by (relation "measure length") auto

declare utf8_valid.simps [simp del]

text \<open>
  Reading a file opened with \<^verbatim>\<open>encoding="utf-8"\<close>: bytes that are not UTF-8 raise
  \<^verbatim>\<open>UnicodeDecodeError\<close>; otherwise the text is the bytes.
\<close>

definition text_read :: "string \<Rightarrow> py_error + string" where
  "text_read bytes = (if utf8_valid bytes then Inr bytes else Inl UnicodeDecodeError)"

text \<open>
  \<^verbatim>\<open>json.load(f)\<close> reads the whole file as text and parses it. The parser
  \<^verbatim>\<open>json.loads\<close> is a parameter \<open>loads\<close> of the model: it returns the decoded value or
  the exception it raises (\<^verbatim>\<open>JSONDecodeError\<close> for text that is not JSON).
\<close>

definition json_load :: "(string \<Rightarrow> py_error + pyval) \<Rightarrow> string \<Rightarrow> py_error + pyval" where
  "json_load loads bytes =
     (case text_read bytes of Inl err \<Rightarrow> Inl err | Inr txt \<Rightarrow> loads txt)"

definition DATA_FILE :: string where
  "DATA_FILE = ''employees.json''"

text \<open>
  \<^verbatim>\<open>
  def load_data(filename: str = DATA_FILE) -> List[Dict]:
      if not os.path.exists(filename):
          return []
      try:
          with open(filename, "r", encoding="utf-8") as f:
              data = json.load(f)
              if isinstance(data, list):
                  return data
              return []
      except (json.JSONDecodeError, IOError):
          return []
  \<close>
  The body of the \<^verbatim>\<open>try\<close> is \<open>load_body\<close>; \<open>load_data\<close> is the existence test and
  the handler, which lets every other exception through.
\<close>

definition load_body :: "(string \<Rightarrow> py_error + pyval) \<Rightarrow> fnode \<Rightarrow> py_error + pyval list" where
  "load_body loads node =
     (case node of
        Blocked \<Rightarrow> Inl IOError
      | RegularFile bytes \<Rightarrow>
          (case json_load loads bytes of
             Inl err \<Rightarrow> Inl err
           | Inr data \<Rightarrow> (case data of PList xs \<Rightarrow> Inr xs | _ \<Rightarrow> Inr [])))"

definition load_data :: "(string \<Rightarrow> py_error + pyval) \<Rightarrow> filesys \<Rightarrow> string \<Rightarrow> py_error + pyval list" where
  "load_data loads fs filename =
     (case fs filename of
        None \<Rightarrow> Inr []
      | Some node \<Rightarrow>
          (case load_body loads node of
             Inl err \<Rightarrow> if err = JSONDecodeError \<or> err = IOError then Inr [] else Inl err
           | Inr data \<Rightarrow> Inr data))"

text \<open>
  \<^verbatim>\<open>
  def save_data(employees: List[Dict], filename: str = DATA_FILE) -> None:
      with open(filename, "w", encoding="utf-8") as f:
          json.dump(employees, f, indent=2, ensure_ascii=False)
  \<close>
  The serialiser \<^verbatim>\<open>json.dumps(_, indent=2, ensure_ascii=False)\<close> is the parameter
  \<open>dumps\<close>. No exception is caught here: a path that cannot be opened raises
  \<^verbatim>\<open>OSError\<close>, text that cannot be encoded raises \<^verbatim>\<open>UnicodeEncodeError\<close>. An error
  result carries no file system: the caller does not continue after it.
\<close>

definition save_data :: "(pyval \<Rightarrow> string) \<Rightarrow> filesys \<Rightarrow> pydict list \<Rightarrow> string \<Rightarrow> py_error + filesys" where
  "save_data dumps fs employees filename =
     (case fs filename of
        Some Blocked \<Rightarrow> Inl IOError
      | _ \<Rightarrow>
          (let txt = dumps (PList (map PDict employees))
           in if utf8_valid txt then Inr (fs(filename \<mapsto> RegularFile txt))
              else Inl UnicodeEncodeError))"

section \<open>The operations on the collection\<close>

text \<open>
  The functions take the collection as \<^verbatim>\<open>List[Dict]\<close>. Where the Python changes the list
  in place and writes the file, the model returns the new list and the new file system.
  An \<open>Inl\<close> result is an exception that leaves the function.
\<close>

text \<open>
  \<^verbatim>\<open>next_id = 1 + max((e.get("id", 0) for e in employees), default=0)\<close>
\<close>

definition next_id :: "pydict list \<Rightarrow> py_error + int" where
  "next_id employees =
     (case py_max (map (\<lambda>e. dict_get e ''id'' (PInt 0)) employees) (PInt 0) of
        Inl err \<Rightarrow> Inl err
      | Inr m \<Rightarrow> py_add_one m)"

text \<open>
  \<^verbatim>\<open>
  def add_employee(employees: List[Dict]) -> None:
      name = input("Enter name: ").strip()
      if not validate_name(name):
          print("Invalid name. Try again.")
          return
      age_str = input("Enter age (15-100): ").strip()
      age = validate_age(age_str)
      if age is None:
          print("Invalid age. Must be number between 15 and 100.")
          return
      dept = input("Enter department: ").strip()
      if not dept:
          dept = "General"
      next_id = 1 + max((e.get("id", 0) for e in employees), default=0)
      emp = {"id": next_id, "name": name, "age": age, "department": dept}
      employees.append(emp)
      save_data(employees)
      print(f"Added employee {name} (id={next_id}).")
  \<close>
  The three lines typed at the prompts are arguments; a later line is only looked at
  once the earlier checks have passed. The result is the collection, the file system
  and the lines printed.
\<close>

definition add_employee ::
  "(pyval \<Rightarrow> string) \<Rightarrow> filesys \<Rightarrow> pydict list \<Rightarrow> string \<Rightarrow> string \<Rightarrow> string
     \<Rightarrow> py_error + (pydict list \<times> filesys \<times> string list)" where
  "add_employee dumps fs employees name_in age_in dept_in =
     (let name = strip name_in in
      if \<not> validate_name name then Inr (employees, fs, [''Invalid name. Try again.''])
      else
        (let age_str = strip age_in in
         case validate_age age_str of
           None \<Rightarrow> Inr (employees, fs, [''Invalid age. Must be number between 15 and 100.''])
         | Some age \<Rightarrow>
             (let dept0 = strip dept_in;
                  dept = (if dept0 = [] then ''General'' else dept0)
              in case next_id employees of
                   Inl err \<Rightarrow> Inl err
                 | Inr nid \<Rightarrow>
                     (let emp = [(''id'', PInt nid), (''name'', PStr name),
                                 (''age'', PInt age), (''department'', PStr dept)];
                          employees' = employees @ [emp]
                      in case save_data dumps fs employees' DATA_FILE of
                           Inl err \<Rightarrow> Inl err
                         | Inr fs' \<Rightarrow>
                             Inr (employees', fs',
                                  [''Added employee '' @ name @ '' (id='' @ py_str_int nid @ '').''])))))"

text \<open>
  \<^verbatim>\<open>
  def view_all(employees: List[Dict]) -> None:
      if not employees:
          print("No employees.")
          return
      print("-" * 50)
      print(f"{'ID':<4} {'Name':<20} {'Age':<4} {'Department':<15}")
      print("-" * 50)
      for e in employees:
          print(f"{e.get('id', ''):<4} {e.get('name',''):<20} {e.get('age',''):<4} {e.get('department',''):<15}")
      print("-" * 50)
  \<close>
  The result is the list of lines printed.
\<close>

definition view_row :: "pydict \<Rightarrow> py_error + string" where
  "view_row e =
     (case py_format_left (dict_get e ''id'' (PStr [])) 4 of
        Inl err \<Rightarrow> Inl err
      | Inr a \<Rightarrow>
     (case py_format_left (dict_get e ''name'' (PStr [])) 20 of
        Inl err \<Rightarrow> Inl err
      | Inr b \<Rightarrow>
     (case py_format_left (dict_get e ''age'' (PStr [])) 4 of
        Inl err \<Rightarrow> Inl err
      | Inr c \<Rightarrow>
     (case py_format_left (dict_get e ''department'' (PStr [])) 15 of
        Inl err \<Rightarrow> Inl err
      | Inr d \<Rightarrow> Inr (a @ '' '' @ b @ '' '' @ c @ '' '' @ d)))))"

fun view_rows :: "pydict list \<Rightarrow> py_error + string list" where
  "view_rows [] = Inr []"
| "view_rows (e # es) =
     (case view_row e of
        Inl err \<Rightarrow> Inl err
      | Inr r \<Rightarrow> (case view_rows es of Inl err \<Rightarrow> Inl err | Inr rs \<Rightarrow> Inr (r # rs)))"

definition view_rule :: string where
  "view_rule = replicate 50 CHR ''-''"

definition view_header :: string where
  "view_header = ljust ''ID'' 4 @ '' '' @ ljust ''Name'' 20 @ '' '' @ ljust ''Age'' 4 @ '' ''
                 @ ljust ''Department'' 15"

definition view_all :: "pydict list \<Rightarrow> py_error + string list" where
  "view_all employees =
     (if employees = [] then Inr [''No employees.'']
      else case view_rows employees of
             Inl err \<Rightarrow> Inl err
           | Inr rs \<Rightarrow> Inr ([view_rule, view_header, view_rule] @ rs @ [view_rule]))"

text \<open>\<^verbatim>\<open>q in s\<close> on strings: \<open>q\<close> occurs in \<open>s\<close> as a contiguous piece.\<close>

fun starts_with :: "string \<Rightarrow> string \<Rightarrow> bool" where
  "starts_with [] s = True"
| "starts_with (c # cs) [] = False"
| "starts_with (c # cs) (d # ds) = (c = d \<and> starts_with cs ds)"

fun py_in :: "string \<Rightarrow> string \<Rightarrow> bool" where
  "py_in q [] = (q = [])"
| "py_in q (d # ds) = (starts_with q (d # ds) \<or> py_in q ds)"

text \<open>
  \<^verbatim>\<open>
  def find_by_name(employees: List[Dict], name_query: str) -> List[Dict]:
      name_query = name_query.strip().lower()
      return [e for e in employees if name_query in e.get("name", "").lower()]
  \<close>
  Only a string has the method \<^verbatim>\<open>lower\<close>: any other value under \<^verbatim>\<open>"name"\<close> raises
  \<^verbatim>\<open>AttributeError\<close>.
\<close>

definition name_lower :: "pydict \<Rightarrow> py_error + string" where
  "name_lower e =
     (case dict_get e ''name'' (PStr []) of
        PStr s \<Rightarrow> Inr (lower s)
      | _ \<Rightarrow> Inl AttributeError)"

fun find_loop :: "string \<Rightarrow> pydict list \<Rightarrow> py_error + pydict list" where
  "find_loop q [] = Inr []"
| "find_loop q (e # es) =
     (case name_lower e of
        Inl err \<Rightarrow> Inl err
      | Inr n \<Rightarrow>
          (case find_loop q es of
             Inl err \<Rightarrow> Inl err
           | Inr rs \<Rightarrow> Inr (if py_in q n then e # rs else rs)))"

definition find_by_name :: "pydict list \<Rightarrow> string \<Rightarrow> py_error + pydict list" where
  "find_by_name employees name_query = find_loop (lower (strip name_query)) employees"

text \<open>
  \<^verbatim>\<open>
  def delete_by_id(employees: List[Dict], id_to_delete: int) -> bool:
      for i, e in enumerate(employees):
          if e.get("id") == id_to_delete:
              del employees[i]
              save_data(employees)
              return True
      return False
  \<close>
  \<open>delete_index\<close> is the loop: the index at which it stops, if it does. The result
  of \<open>delete_by_id\<close> is the value returned, the collection and the file system.
\<close>

definition id_matches :: "int \<Rightarrow> pydict \<Rightarrow> bool" where
  "id_matches id_to_delete e = py_eq (dict_get e ''id'' PNone) (PInt id_to_delete)"

fun delete_index :: "int \<Rightarrow> pydict list \<Rightarrow> nat option" where
  "delete_index id_to_delete [] = None"
| "delete_index id_to_delete (e # es) =
     (if id_matches id_to_delete e then Some 0
      else map_option Suc (delete_index id_to_delete es))"

definition delete_by_id ::
  "(pyval \<Rightarrow> string) \<Rightarrow> filesys \<Rightarrow> pydict list \<Rightarrow> int
     \<Rightarrow> py_error + (bool \<times> pydict list \<times> filesys)" where
  "delete_by_id dumps fs employees id_to_delete =
     (case delete_index id_to_delete employees of
        None \<Rightarrow> Inr (False, employees, fs)
      | Some i \<Rightarrow>
          (let employees' = take i employees @ drop (Suc i) employees
           in case save_data dumps fs employees' DATA_FILE of
                Inl err \<Rightarrow> Inl err
              | Inr fs' \<Rightarrow> Inr (True, employees', fs')))"

section \<open>Sequences of operations\<close>

text \<open>
  The four operations on the collection, applied one after the other to the collection
  and the file system; the interactive shell calls them from its menu. Viewing and
  searching read the collection and leave it as it is. Each step records what it did to
  the ids: the ids of the records it appended, or the id it deleted. An exception ends
  the run.
\<close>

datatype operation =
    OpAdd string string string
  | OpView
  | OpSearch string
  | OpDelete int

datatype event = Assigned pyval | Deleted int

fun apply_op ::
  "(pyval \<Rightarrow> string) \<Rightarrow> pydict list \<times> filesys \<Rightarrow> operation
     \<Rightarrow> py_error + ((pydict list \<times> filesys) \<times> event list)" where
  "apply_op dumps (employees, fs) (OpAdd name_in age_in dept_in) =
     (case add_employee dumps fs employees name_in age_in dept_in of
        Inl err \<Rightarrow> Inl err
      | Inr (employees', fs', out) \<Rightarrow>
          Inr ((employees', fs'),
               map (\<lambda>e. Assigned (dict_get e ''id'' PNone)) (drop (length employees) employees')))"
| "apply_op dumps (employees, fs) OpView =
     (case view_all employees of
        Inl err \<Rightarrow> Inl err
      | Inr out \<Rightarrow> Inr ((employees, fs), []))"
| "apply_op dumps (employees, fs) (OpSearch q) =
     (case find_by_name employees q of
        Inl err \<Rightarrow> Inl err
      | Inr found \<Rightarrow> Inr ((employees, fs), []))"
| "apply_op dumps (employees, fs) (OpDelete i) =
     (case delete_by_id dumps fs employees i of
        Inl err \<Rightarrow> Inl err
      | Inr (ok, employees', fs') \<Rightarrow>
          Inr ((employees', fs'), if ok then [Deleted i] else []))"


section \<open>Predicates of the statements\<close>

text \<open>
  A well-formed record has an integer id, a string name, an integer age and a string
  department.
\<close>

definition wf_record :: "pydict \<Rightarrow> bool" where
  "wf_record e =
     (case (map_of e ''id'', map_of e ''name'', map_of e ''age'', map_of e ''department'') of
        (Some (PInt i), Some (PStr n), Some (PInt a), Some (PStr d)) \<Rightarrow> True
      | _ \<Rightarrow> False)"

text \<open>The integer id of a record; 0 when the record has none.\<close>

definition rec_id :: "pydict \<Rightarrow> int" where
  "rec_id e = (case map_of e ''id'' of Some (PInt i) \<Rightarrow> i | _ \<Rightarrow> 0)"

definition has_int_id :: "pydict \<Rightarrow> bool" where
  "has_int_id e = (case map_of e ''id'' of Some (PInt i) \<Rightarrow> True | _ \<Rightarrow> False)"

text \<open>Every record has an integer id, and no two records have the same one.\<close>

definition ids_ok :: "pydict list \<Rightarrow> bool" where
  "ids_ok employees = (list_all has_int_id employees \<and> distinct (map rec_id employees))"

text \<open>The record that \<open>add_employee\<close> builds from an id and the three inputs.\<close>

definition new_record :: "int \<Rightarrow> string \<Rightarrow> int \<Rightarrow> string \<Rightarrow> pydict" where
  "new_record nid name_in age dept_in =
     [(''id'', PInt nid), (''name'', PStr (strip name_in)), (''age'', PInt age),
      (''department'', PStr (if strip dept_in = [] then ''General'' else strip dept_in))]"

text \<open>Two records for the examples.\<close>

abbreviation (input) bob :: pydict where
  "bob \<equiv> [(''id'', PInt 1), (''name'', PStr ''Bob''), (''age'', PInt 30),
           (''department'', PStr ''Eng'')]"

abbreviation (input) amy :: pydict where
  "amy \<equiv> [(''id'', PInt 2), (''name'', PStr ''Amy''), (''age'', PInt 25),
           (''department'', PStr ''General'')]"







section \<open>Validation of the age\<close>



section \<open>Trimming\<close>













section \<open>The next id\<close>

lemma py_max_from_ints:
  "py_max_from (PInt m) (map PInt xs) = Inr (PInt (fold max xs m))"
  by (induction xs arbitrary: m) (auto simp: max_def)

lemma has_int_id_get: "has_int_id e \<Longrightarrow> dict_get e ''id'' dflt = PInt (rec_id e)"
  by (auto simp: has_int_id_def dict_get_def rec_id_def split: option.splits pyval.splits)

lemma wf_has_int_id: "wf_record e \<Longrightarrow> has_int_id e"
  by (auto simp: has_int_id_def wf_record_def split: option.splits pyval.splits)

lemma next_id_ints:
  assumes "\<forall>e \<in> set employees. dict_get e ''id'' (PInt 0) = PInt (f e)"
  shows "next_id employees =
           Inr (if employees = [] then 1 else 1 + Max (set (map f employees)))"
proof (cases employees)
  case Nil
  then show ?thesis by (simp add: next_id_def py_max_def)
next
  case (Cons e es)
  have hd: "dict_get e ''id'' (PInt 0) = PInt (f e)"
    using assms Cons by simp
  have tl: "map (\<lambda>e. dict_get e ''id'' (PInt 0)) es = map PInt (map f es)"
    using assms Cons by simp
  have "py_max (map (\<lambda>e. dict_get e ''id'' (PInt 0)) employees) (PInt 0)
               = Inr (PInt (fold max (map f es) (f e)))"
    unfolding Cons py_max_def by (simp only: list.map list.case hd tl py_max_from_ints)
  moreover have "fold max (map f es) (f e) = Max (set (map f employees))"
    using Cons Max.set_eq_fold [of "f e" "map f es"] by simp
  ultimately show ?thesis using Cons by (simp add: next_id_def)
qed

lemma next_id_gt:
  assumes "\<forall>e \<in> set employees. has_int_id e" and "next_id employees = Inr nid"
  shows "\<forall>e \<in> set employees. rec_id e < nid"
proof
  fix e assume e: "e \<in> set employees"
  have "next_id employees = Inr (if employees = [] then 1 else 1 + Max (set (map rec_id employees)))"
    using assms(1) by (intro next_id_ints) (simp add: has_int_id_get)
  with assms(2) e have nid: "nid = 1 + Max (set (map rec_id employees))" by auto
  have "rec_id e \<le> Max (set (map rec_id employees))"
    using e by (intro Max_ge) auto
  with nid show "rec_id e < nid" by simp
qed

section \<open>Evaluation on concrete inputs\<close>

lemma utf8_valid_Nil: "utf8_valid []"
  by (simp add: utf8_valid.simps)

lemma utf8_valid_ascii_Cons:
  "(of_char c :: nat) < 128 \<Longrightarrow> utf8_valid (c # cs) = utf8_valid cs"
  by (subst utf8_valid.simps) (simp add: utf8_len_def)

lemma nat_digits_small: "n < 10 \<Longrightarrow> nat_digits n = [digit_char n]"
  by (simp add: nat_digits.simps)

lemmas eval_defs =
  add_employee_def validate_name_def validate_age_def py_int_def strip_def trim_def
  py_isspace_def int_isspace_def
  is_digit_def digits_value_def digit_val_def next_id_def py_max_def dict_get_def
  save_data_def DATA_FILE_def py_str_int_def digit_char_def delete_by_id_def id_matches_def
  wf_record_def rec_id_def has_int_id_def Let_def utf8_valid_Nil utf8_valid_ascii_Cons
  nat_digits_small char_of_def bit_0

section \<open>Adding an employee\<close>

lemma new_record_wf: "wf_record (new_record nid n a d)"
  by (simp add: wf_record_def new_record_def)

lemma new_record_id: "rec_id (new_record nid n a d) = nid"
  by (simp add: rec_id_def new_record_def)



lemma add_employee_cases:
  assumes "add_employee dumps fs employees n a d = Inr (employees', fs', out)"
  shows "(employees' = employees \<and> fs' = fs) \<or>
         (\<exists>nid age. next_id employees = Inr nid \<and>
                    employees' = employees @ [new_record nid n age d])"
  using assms
  by (auto simp: add_employee_def Let_def new_record_def split: if_splits option.splits sum.splits)



section \<open>Deleting by id\<close>

lemma delete_index_Some:
  "delete_index t es = Some i \<Longrightarrow>
     \<exists>pre e post. es = pre @ e # post \<and> length pre = i \<and> id_matches t e
                  \<and> (\<forall>x \<in> set pre. \<not> id_matches t x)"
proof (induction es arbitrary: i)
  case Nil
  then show ?case by simp
next
  case (Cons a es)
  show ?case
  proof (cases "id_matches t a")
    case True
    with Cons.prems have "i = 0" by simp
    with True show ?thesis by (intro exI [of _ "[]"] exI [of _ a] exI [of _ es]) simp
  next
    case False
    with Cons.prems obtain j where j: "delete_index t es = Some j" "i = Suc j" by auto
    from Cons.IH [OF j(1)] obtain pre e post where
      "es = pre @ e # post" "length pre = j" "id_matches t e" "\<forall>x \<in> set pre. \<not> id_matches t x"
      by blast
    with False j(2) show ?thesis
      by (intro exI [of _ "a # pre"] exI [of _ e] exI [of _ post]) simp
  qed
qed

lemma delete_index_None: "delete_index t es = None \<longleftrightarrow> (\<forall>e \<in> set es. \<not> id_matches t e)"
  by (induction es) auto

lemma delete_by_id_found:
  assumes "delete_index t es = Some i"
  shows "\<exists>pre e post. es = pre @ e # post \<and> id_matches t e
           \<and> (\<forall>x \<in> set pre. \<not> id_matches t x)
           \<and> delete_by_id dumps fs es t =
                (case save_data dumps fs (pre @ post) DATA_FILE of
                   Inl err \<Rightarrow> Inl err
                 | Inr fs1 \<Rightarrow> Inr (True, pre @ post, fs1))"
proof -
  from delete_index_Some [OF assms] obtain pre e post where
    d: "es = pre @ e # post" "length pre = i" "id_matches t e"
       "\<forall>x \<in> set pre. \<not> id_matches t x"
    by blast
  then have rm: "take i es @ drop (Suc i) es = pre @ post" by simp
  have "delete_by_id dumps fs es t =
          (case save_data dumps fs (pre @ post) DATA_FILE of
             Inl err \<Rightarrow> Inl err
           | Inr fs1 \<Rightarrow> Inr (True, pre @ post, fs1))"
    by (simp only: delete_by_id_def assms option.case Let_def rm)
  with d show ?thesis by blast
qed

lemma delete_by_id_cases:
  assumes "delete_by_id dumps fs es t = Inr (ok, es', fs')"
  shows "(\<not> ok \<and> es' = es \<and> fs' = fs) \<or>
         (ok \<and> (\<exists>pre e post. es = pre @ e # post \<and> es' = pre @ post))"
proof (cases "delete_index t es")
  case None
  with assms show ?thesis by (simp add: delete_by_id_def)
next
  case (Some i)
  from delete_by_id_found [OF Some, of dumps fs] obtain pre e post where
    d: "es = pre @ e # post"
    and eq: "delete_by_id dumps fs es t =
          (case save_data dumps fs (pre @ post) DATA_FILE of
             Inl err \<Rightarrow> Inl err
           | Inr fs1 \<Rightarrow> Inr (True, pre @ post, fs1))"
    by blast
  from eq assms have "ok \<and> es' = pre @ post"
    by (auto split: sum.splits)
  with d show ?thesis by blast
qed

lemma id_matches_int: "has_int_id e \<Longrightarrow> id_matches t e \<longleftrightarrow> rec_id e = t"
  by (auto simp: id_matches_def has_int_id_get)

text \<open>
  C8. If some record's id equals the target, \<open>delete_by_id\<close> removes the first such
  record and no other: the records before it and after it stay, in their order; the
  new collection is handed to \<open>save_data\<close>, and the result is \<open>True\<close>. If no record's
  id equals the target, the result is \<open>False\<close>, with the collection and the file
  system as they were. Equality is that of Python (\<open>id_matches\<close>); for a record with an
  integer id it is equality of integers.
\<close>

theorem delete_by_id_first_match:
  "((\<exists>e \<in> set employees. id_matches t e) \<longrightarrow>
      (\<exists>pre e post. employees = pre @ e # post \<and> id_matches t e
         \<and> (\<forall>x \<in> set pre. \<not> id_matches t x)
         \<and> delete_by_id dumps fs employees t =
              (case save_data dumps fs (pre @ post) DATA_FILE of
                 Inl err \<Rightarrow> Inl err
               | Inr fs1 \<Rightarrow> Inr (True, pre @ post, fs1))))
   \<and> ((\<forall>e \<in> set employees. \<not> id_matches t e) \<longrightarrow>
        delete_by_id dumps fs employees t = Inr (False, employees, fs))
   \<and> (\<forall>e \<in> set employees. has_int_id e \<longrightarrow> (id_matches t e \<longleftrightarrow> rec_id e = t))"
proof (intro conjI impI ballI)
  assume "\<exists>e \<in> set employees. id_matches t e"
  then have "delete_index t employees \<noteq> None"
    by (simp add: delete_index_None)
  then obtain i where "delete_index t employees = Some i" by blast
  from delete_by_id_found [OF this]
  show "\<exists>pre e post. employees = pre @ e # post \<and> id_matches t e
         \<and> (\<forall>x \<in> set pre. \<not> id_matches t x)
         \<and> delete_by_id dumps fs employees t =
              (case save_data dumps fs (pre @ post) DATA_FILE of
                 Inl err \<Rightarrow> Inl err
               | Inr fs1 \<Rightarrow> Inr (True, pre @ post, fs1))" .
next
  assume "\<forall>e \<in> set employees. \<not> id_matches t e"
  then have "delete_index t employees = None"
    by (simp add: delete_index_None)
  then show "delete_by_id dumps fs employees t = Inr (False, employees, fs)"
    by (simp add: delete_by_id_def)
next
  fix e assume "has_int_id e"
  then show "id_matches t e \<longleftrightarrow> rec_id e = t" by (rule id_matches_int)
qed

theorem delete_by_id_first_match_witness:
  "delete_by_id (\<lambda>v. ''[]'') Map.empty [bob, amy] 1
     = Inr (True, [amy], [''employees.json'' \<mapsto> RegularFile ''[]''])
   \<and> delete_by_id (\<lambda>v. ''[]'') Map.empty [amy] 1 = Inr (False, [amy], Map.empty)"
proof
  have m: "id_matches 1 bob" by (simp add: id_matches_def dict_get_def)
  then have "\<exists>e \<in> set [bob, amy]. id_matches 1 e" by simp
  with delete_by_id_first_match [where employees = "[bob, amy]" and t = 1
      and dumps = "\<lambda>v. ''[]''" and fs = Map.empty]
  obtain pre e post where
    d: "[bob, amy] = pre @ e # post" "\<forall>x \<in> set pre. \<not> id_matches 1 x"
    and eq: "delete_by_id (\<lambda>v. ''[]'') Map.empty [bob, amy] 1 =
              (case save_data (\<lambda>v. ''[]'') Map.empty (pre @ post) DATA_FILE of
                 Inl err \<Rightarrow> Inl err
               | Inr fs1 \<Rightarrow> Inr (True, pre @ post, fs1))"
    by blast
  from d m have "pre = [] \<and> post = [amy]"
    by (cases pre) auto
  with eq show "delete_by_id (\<lambda>v. ''[]'') Map.empty [bob, amy] 1
     = Inr (True, [amy], [''employees.json'' \<mapsto> RegularFile ''[]''])"
    by (simp add: save_data_def DATA_FILE_def utf8_valid_Nil utf8_valid_ascii_Cons)
next
  have "\<forall>e \<in> set [amy]. \<not> id_matches 1 e" by (simp add: id_matches_def dict_get_def)
  with delete_by_id_first_match [where employees = "[amy]" and t = 1
      and dumps = "\<lambda>v. ''[]''" and fs = Map.empty]
  show "delete_by_id (\<lambda>v. ''[]'') Map.empty [amy] 1 = Inr (False, [amy], Map.empty)"
    by blast
qed

section \<open>Ids along a run of operations\<close>

lemma apply_op_ids_ok:
  assumes "ids_ok employees"
    and "apply_op dumps (employees, fs) op = Inr ((employees', fs'), evs)"
  shows "ids_ok employees'"
proof (cases op)
  case (OpAdd n a d)
  with assms(2) obtain out where
    "add_employee dumps fs employees n a d = Inr (employees', fs', out)"
    by (auto split: sum.splits)
  from add_employee_cases [OF this] show ?thesis
  proof
    assume "employees' = employees \<and> fs' = fs"
    with assms(1) show ?thesis by simp
  next
    assume "\<exists>nid age. next_id employees = Inr nid \<and>
                    employees' = employees @ [new_record nid n age d]"
    then obtain nid age where
      nid: "next_id employees = Inr nid" and e': "employees' = employees @ [new_record nid n age d]"
      by blast
    have "\<forall>e \<in> set employees. rec_id e < nid"
      using assms(1) nid by (intro next_id_gt) (simp_all add: ids_ok_def list_all_iff)
    then have "nid \<notin> rec_id ` set employees" by auto
    with assms(1) e' show ?thesis
      by (simp add: ids_ok_def new_record_id wf_has_int_id new_record_wf)
  qed
next
  case OpView
  with assms show ?thesis by (auto split: sum.splits)
next
  case (OpSearch q)
  with assms show ?thesis by (auto split: sum.splits)
next
  case (OpDelete t)
  with assms(2) obtain ok where
    "delete_by_id dumps fs employees t = Inr (ok, employees', fs')"
    by (auto split: sum.splits)
  from delete_by_id_cases [OF this] assms(1) show ?thesis
    by (auto simp: ids_ok_def)
qed


text \<open>
  C3. If all records of a collection have integer ids that are pairwise distinct, then
  after any single operation (adding, with any inputs; deleting by id; viewing;
  searching) all records of the resulting collection have integer ids that are
  pairwise distinct.
\<close>

theorem ids_distinct_preserved:
  assumes "list_all has_int_id employees" and "distinct (map rec_id employees)"
    and "apply_op dumps (employees, fs) op = Inr ((employees', fs'), evs)"
  shows "list_all has_int_id employees' \<and> distinct (map rec_id employees')"
  using apply_op_ids_ok [OF _ assms(3)] assms(1,2) by (simp add: ids_ok_def)

lemma apply_op_add_bob:
  "apply_op (\<lambda>v. ''[]'') ([bob], Map.empty) (OpAdd '' Amy '' ''25'' ''  '')
     = Inr (([bob, amy], [''employees.json'' \<mapsto> RegularFile ''[]'']), [Assigned (PInt 2)])"
  by (simp add: eval_defs)

lemma apply_op_delete_bob:
  "apply_op (\<lambda>v. ''[]'') ([bob, amy], Map.empty) (OpDelete 1)
     = Inr (([amy], [''employees.json'' \<mapsto> RegularFile ''[]'']), [Deleted 1])"
  by (simp add: eval_defs)

theorem ids_distinct_preserved_witness:
  "(list_all has_int_id [bob, amy] \<and> distinct (map rec_id [bob, amy]))
   \<and> (list_all has_int_id [amy] \<and> distinct (map rec_id [amy]))"
proof
  have "list_all has_int_id [bob]" "distinct (map rec_id [bob])"
    by (simp_all add: has_int_id_def)
  from ids_distinct_preserved [OF this apply_op_add_bob]
  show "list_all has_int_id [bob, amy] \<and> distinct (map rec_id [bob, amy])" .
next
  have "list_all has_int_id [bob, amy]" "distinct (map rec_id [bob, amy])"
    by (simp_all add: has_int_id_def rec_id_def)
  from ids_distinct_preserved [OF this apply_op_delete_bob]
  show "list_all has_int_id [amy] \<and> distinct (map rec_id [amy])" .
qed






section \<open>Loading and saving\<close>

lemma load_data_missing: "fs filename = None \<Longrightarrow> load_data loads fs filename = Inr []"
  by (simp add: load_data_def)

lemma load_data_blocked: "fs filename = Some Blocked \<Longrightarrow> load_data loads fs filename = Inr []"
  by (simp add: load_data_def load_body_def)

lemma load_data_not_json:
  "fs filename = Some (RegularFile bytes) \<Longrightarrow> json_load loads bytes = Inl JSONDecodeError
     \<Longrightarrow> load_data loads fs filename = Inr []"
  by (simp add: load_data_def load_body_def)

lemma load_data_not_list:
  "fs filename = Some (RegularFile bytes) \<Longrightarrow> json_load loads bytes = Inr v
     \<Longrightarrow> \<forall>xs. v \<noteq> PList xs \<Longrightarrow> load_data loads fs filename = Inr []"
  by (cases v) (simp_all add: load_data_def load_body_def)


lemma load_data_other_error:
  "fs filename = Some (RegularFile bytes) \<Longrightarrow> json_load loads bytes = Inl err
     \<Longrightarrow> err \<noteq> JSONDecodeError \<Longrightarrow> err \<noteq> IOError
     \<Longrightarrow> load_data loads fs filename = Inl err"
  by (simp add: load_data_def load_body_def)

lemma not_utf8_FF: "\<not> utf8_valid [CHR 0xFF]"
  by (subst utf8_valid.simps) (simp add: utf8_len_def)

text \<open>
  C5. \<open>load_data\<close> is to return the empty collection for every file whose content
  is not valid JSON, as its docstring says (empty list if the file is missing or
  invalid). A file whose bytes are not UTF-8 (the single byte FF) is not valid JSON,
  and \<open>load_data\<close> does not return for it: reading the text raises
  \<^verbatim>\<open>UnicodeDecodeError\<close>, which the handler for \<^verbatim>\<open>JSONDecodeError\<close> and \<^verbatim>\<open>IOError\<close>
  lets through, whatever the parser is. The lemmas above are the cases in which the
  empty collection, or the decoded list, is returned.
\<close>

theorem load_data_not_utf8_raises:
  "load_data loads (fs(filename \<mapsto> RegularFile [CHR 0xFF])) filename = Inl UnicodeDecodeError"
proof -
  have "json_load loads [CHR 0xFF] = Inl UnicodeDecodeError"
    by (simp add: json_load_def text_read_def not_utf8_FF)
  then show ?thesis
    by (intro load_data_other_error [where bytes = "[CHR 0xFF]"]) simp_all
qed



section \<open>Searching by name\<close>










section \<open>Viewing the collection\<close>









section \<open>Where the next id is defined\<close>






end
